theory Spec2Isabelle
  imports Complex_Main
begin

section \<open>Data model (types.ts)\<close>

text \<open>
  The TypeScript \<open>number\<close> is modelled by the type \<open>real\<close>: every statement below is
  about the formulas of the program over exact real arithmetic. Rounding is outside the
  model, and the theorems carry as hypotheses the conditions under which no denominator
  of the program is zero. The one place where the program tests its arguments for being
  numbers at all is \<open>deriveAngularMomentum\<close>; the two arguments it tests are modelled
  as doubles with their infinities and NaN (type \<open>number\<close> below).
\<close>

type_synonym Vector3 = "real \<times> real \<times> real"

abbreviation at0 :: "Vector3 \<Rightarrow> real" where "at0 v \<equiv> fst v"
abbreviation at1 :: "Vector3 \<Rightarrow> real" where "at1 v \<equiv> fst (snd v)"
abbreviation at2 :: "Vector3 \<Rightarrow> real" where "at2 v \<equiv> snd (snd v)"

record RelativeState =
  position :: Vector3
  velocity :: Vector3

record OrbitalElements =
  eccentricity :: real
  angularMomentum :: real
  gravitationalParameter :: real

type_synonym TrueAnomaly = real

datatype Frame = RIC | LVLH

record InPlaneState =
  x :: real
  z :: real
  vx :: real
  vz :: real

record OutOfPlaneState =
  y :: real
  vy :: real

text \<open>
  A thrown \<open>Error\<close> is a value carrying its message. A template literal is kept as its
  pieces, so that the interpolated number needs no rendering as text.
\<close>

datatype piece = Lit string | Num real

datatype error = Error "piece list"

section \<open>Frame conversion (frames.ts)\<close>

definition toInternalFromFrame :: "RelativeState \<Rightarrow> Frame \<Rightarrow> RelativeState" where
  "toInternalFromFrame state from =
     (if from = RIC then
        (let (r, i, c) = position state;
             (vr, vi, vc) = velocity state
         in \<lparr>position = (i, c, r), velocity = (vi, vc, vr)\<rparr>)
      else state)"

definition fromInternalToFrame :: "RelativeState \<Rightarrow> Frame \<Rightarrow> RelativeState" where
  "fromInternalToFrame state to =
     (if to = RIC then
        (let (ix, iy, iz) = position state;
             (vix, viy, viz) = velocity state
         in \<lparr>position = (iz, ix, iy), velocity = (viz, vix, viy)\<rparr>)
      else state)"

section \<open>Auxiliary scalars (auxiliary-functions.ts)\<close>

definition rho :: "real \<Rightarrow> TrueAnomaly \<Rightarrow> real" where
  "rho e theta = 1 + e * cos theta"

definition s :: "real \<Rightarrow> TrueAnomaly \<Rightarrow> real" where
  "s e theta = (let rhoVal = rho e theta in rhoVal * sin theta)"

definition c :: "real \<Rightarrow> TrueAnomaly \<Rightarrow> real" where
  "c e theta = (let rhoVal = rho e theta in rhoVal * cos theta)"

definition sPrime :: "real \<Rightarrow> TrueAnomaly \<Rightarrow> real" where
  "sPrime e theta = cos theta + e * cos (2 * theta)"

definition cPrime :: "real \<Rightarrow> TrueAnomaly \<Rightarrow> real" where
  "cPrime e theta = - (sin theta + e * sin (2 * theta))"

text \<open>\<open>Math.pow(h, 1.5)\<close> is \<open>h powr (3/2)\<close>; the two agree for \<open>h > 0\<close>.\<close>

definition kSquared :: "OrbitalElements \<Rightarrow> real" where
  "kSquared elements =
     (let mu = gravitationalParameter elements;
          h = angularMomentum elements;
          k = mu / (h powr (3 / 2))
      in k * k)"

definition J :: "OrbitalElements \<Rightarrow> real \<Rightarrow> real" where
  "J elements deltaTime = kSquared elements * deltaTime"

section \<open>Out-of-plane transition (out-of-plane-stm.ts)\<close>

definition propagateOutOfPlane ::
  "OutOfPlaneState \<Rightarrow> real \<Rightarrow> TrueAnomaly \<Rightarrow> TrueAnomaly \<Rightarrow> OutOfPlaneState" where
  "propagateOutOfPlane initial e theta0 theta =
     (let rho0 = rho e theta0;
          rhoT = rho e theta;
          deltaTheta = theta - theta0;
          cosDelta = cos deltaTheta;
          sinDelta = sin deltaTheta;
          factor = 1 / (rhoT / rho0)
      in \<lparr>y = factor * (cosDelta * y initial + sinDelta * vy initial),
          vy = factor * (- sinDelta * y initial + cosDelta * vy initial)\<rparr>)"

section \<open>Coordinate transform (coordinate-transforms.ts)\<close>

definition toModifiedCoordinates ::
  "RelativeState \<Rightarrow> OrbitalElements \<Rightarrow> TrueAnomaly \<Rightarrow> RelativeState" where
  "toModifiedCoordinates state elements theta =
     (let e = eccentricity elements;
          rhoVal = rho e theta;
          k2 = kSquared elements;
          eSinTheta = e * sin theta
      in \<lparr>position =
            (rhoVal * at0 (position state),
             rhoVal * at1 (position state),
             rhoVal * at2 (position state)),
          velocity =
            (- eSinTheta * at0 (position state) + at0 (velocity state) / (k2 * rhoVal),
             - eSinTheta * at1 (position state) + at1 (velocity state) / (k2 * rhoVal),
             - eSinTheta * at2 (position state) + at2 (velocity state) / (k2 * rhoVal))\<rparr>)"

definition fromModifiedCoordinates ::
  "RelativeState \<Rightarrow> OrbitalElements \<Rightarrow> TrueAnomaly \<Rightarrow> RelativeState" where
  "fromModifiedCoordinates modifiedState elements theta =
     (let e = eccentricity elements;
          rhoVal = rho e theta;
          k2 = kSquared elements;
          eSinTheta = e * sin theta
      in \<lparr>position =
            (at0 (position modifiedState) / rhoVal,
             at1 (position modifiedState) / rhoVal,
             at2 (position modifiedState) / rhoVal),
          velocity =
            (k2 * (eSinTheta * at0 (position modifiedState)
                     + rhoVal * at0 (velocity modifiedState)),
             k2 * (eSinTheta * at1 (position modifiedState)
                     + rhoVal * at1 (velocity modifiedState)),
             k2 * (eSinTheta * at2 (position modifiedState)
                     + rhoVal * at2 (velocity modifiedState)))\<rparr>)"

section \<open>In-plane transition (in-plane-stm.ts)\<close>

definition computePseudoInitialInPlane ::
  "InPlaneState \<Rightarrow> real \<Rightarrow> TrueAnomaly \<Rightarrow> InPlaneState" where
  "computePseudoInitialInPlane state e theta0 =
     (let rho0 = rho e theta0;
          s0 = s e theta0;
          c0 = c e theta0;
          oneMinusE2 = 1 - e * e;
          factor = 1 / oneMinusE2;
          xBar = factor *
            ((1 - e * e) * x state
             + 3 * e * (s0 / rho0) * (1 + 1 / rho0) * z state
             + - e * s0 * (1 + 1 / rho0) * vx state
             + (- e * c0 + 2) * vz state);
          zBar = factor *
            (0
             + - 3 * (s0 / rho0) * (1 + (e * e) / rho0) * z state
             + s0 * (1 + 1 / rho0) * vx state
             + (c0 - 2 * e) * vz state);
          vxBar = factor *
            (0
             + - 3 * (c0 / rho0 + e) * z state
             + (c0 * (1 + 1 / rho0) + e) * vx state
             + - s0 * vz state);
          vzBar = factor *
            (0
             + (3 * rho0 + e * e - 1) * z state
             + - rho0 * rho0 * vx state
             + e * s0 * vz state)
      in \<lparr>x = xBar, z = zBar, vx = vxBar, vz = vzBar\<rparr>)"

definition propagateInPlane ::
  "InPlaneState \<Rightarrow> real \<Rightarrow> TrueAnomaly \<Rightarrow> real \<Rightarrow> InPlaneState" where
  "propagateInPlane pseudoInitial e theta JValue =
     (let rhoVal = rho e theta;
          sVal = s e theta;
          cVal = c e theta;
          sPrimeVal = sPrime e theta;
          cPrimeVal = cPrime e theta;
          oneOverRho = 1 / rhoVal;
          xF =
            1 * x pseudoInitial
            + - cVal * (1 + oneOverRho) * z pseudoInitial
            + sVal * (1 + oneOverRho) * vx pseudoInitial
            + 3 * rhoVal * rhoVal * JValue * vz pseudoInitial;
          zF =
            0 * x pseudoInitial
            + sVal * z pseudoInitial
            + cVal * vx pseudoInitial
            + (2 - 3 * e * sVal * JValue) * vz pseudoInitial;
          vxF =
            0 * x pseudoInitial
            + 2 * sVal * z pseudoInitial
            + (2 * cVal - e) * vx pseudoInitial
            + 3 * (1 - 2 * e * sVal * JValue) * vz pseudoInitial;
          vzF =
            0 * x pseudoInitial
            + sPrimeVal * z pseudoInitial
            + cPrimeVal * vx pseudoInitial
            + - 3 * e * (sPrimeVal * JValue + sVal / (rhoVal * rhoVal)) * vz pseudoInitial
      in \<lparr>x = xF, z = zF, vx = vxF, vz = vzF\<rparr>)"

section \<open>Circular closed form (clohessy-wiltshire.ts)\<close>

definition propagateHCW ::
  "RelativeState \<Rightarrow> real \<Rightarrow> real \<Rightarrow> Frame \<Rightarrow> RelativeState" where
  "propagateHCW initialState orbitalRate deltaTime frame =
     (let internalInitial = toInternalFromFrame initialState frame;
          n = orbitalRate;
          dt = deltaTime;
          nt = n * dt;
          sinNt = sin nt;
          cosNt = cos nt;
          (x0, y0, z0) = position internalInitial;
          (vx0, vy0, vz0) = velocity internalInitial;
          xF = x0
             + 6 * (nt - sinNt) * z0
             + (1 / n) * (4 * sinNt - 3 * nt) * vx0
             + (2 / n) * (1 - cosNt) * vz0;
          zF = (4 - 3 * cosNt) * z0 + (2 / n) * (cosNt - 1) * vx0 + (1 / n) * sinNt * vz0;
          vxF = 6 * n * (1 - cosNt) * z0 + (4 * cosNt - 3) * vx0 + 2 * sinNt * vz0;
          vzF = 3 * n * sinNt * z0 + - 2 * sinNt * vx0 + cosNt * vz0;
          yF = cosNt * y0 + (1 / n) * sinNt * vy0;
          vyF = - n * sinNt * y0 + cosNt * vy0;
          internalFinal = \<lparr>position = (xF, yF, zF), velocity = (vxF, vyF, vzF)\<rparr>
      in fromInternalToFrame internalFinal frame)"

section \<open>Elliptical propagation (yamanaka-ankersen.ts)\<close>

definition propagateYA ::
  "RelativeState \<Rightarrow> OrbitalElements \<Rightarrow> TrueAnomaly \<Rightarrow> TrueAnomaly \<Rightarrow> real \<Rightarrow> Frame
     \<Rightarrow> error + RelativeState" where
  "propagateYA initialState elements theta0 thetaF deltaTime frame =
     (let e = eccentricity elements in
      if e < 0 \<or> e \<ge> 1 then
        Inl (Error [Lit ''Eccentricity must be in range [0, 1), got '', Num e])
      else
        (let internalInitial = toInternalFromFrame initialState frame;
             modifiedInitial = toModifiedCoordinates internalInitial elements theta0;
             JValue = J elements deltaTime;
             inPlaneInitial =
               \<lparr>x = at0 (position modifiedInitial),
                z = at2 (position modifiedInitial),
                vx = at0 (velocity modifiedInitial),
                vz = at2 (velocity modifiedInitial)\<rparr>;
             pseudoInPlane = computePseudoInitialInPlane inPlaneInitial e theta0;
             finalInPlane = propagateInPlane pseudoInPlane e thetaF JValue;
             outOfPlaneInitial =
               \<lparr>y = at1 (position modifiedInitial),
                vy = at1 (velocity modifiedInitial)\<rparr>;
             finalOutOfPlane = propagateOutOfPlane outOfPlaneInitial e theta0 thetaF;
             modifiedFinal =
               \<lparr>position = (x finalInPlane, y finalOutOfPlane, z finalInPlane),
                velocity = (vx finalInPlane, vy finalOutOfPlane, vz finalInPlane)\<rparr>;
             finalTrueInternal = fromModifiedCoordinates modifiedFinal elements thetaF
         in Inr (fromInternalToFrame finalTrueInternal frame)))"

section \<open>Kepler utilities (kepler-utils.ts)\<close>

text \<open>
  The Newton loop of \<open>trueAnomalyFromMean\<close>: \<open>i\<close> is the loop counter and \<open>E\<close> the
  current iterate. The result is the value of \<open>E\<close> on leaving the loop, paired with the
  number of loop bodies that have been executed by then.
\<close>

function keplerLoop :: "real \<Rightarrow> real \<Rightarrow> real \<Rightarrow> nat \<Rightarrow> real \<Rightarrow> real \<times> nat" where
  "keplerLoop meanAnomaly ecc tolerance i E =
     (if i < 100 then
        (let f = E - ecc * sin E - meanAnomaly;
             fPrime = 1 - ecc * cos E;
             deltaE = f / fPrime;
             E' = E - deltaE
         in if \<bar>deltaE\<bar> < tolerance then (E', Suc i)
            else keplerLoop meanAnomaly ecc tolerance (Suc i) E')
      else (E, i))"
  by pat_completeness auto
termination
  by (relation "measure (\<lambda>(meanAnomaly, ecc, tolerance, i, E). 100 - i)") auto

definition trueAnomalyFromMean :: "real \<Rightarrow> real \<Rightarrow> real \<Rightarrow> TrueAnomaly" where
  "trueAnomalyFromMean meanAnomaly ecc tolerance =
     (let E = fst (keplerLoop meanAnomaly ecc tolerance 0 meanAnomaly);
          theta = 2 * arctan (sqrt ((1 + ecc) / (1 - ecc)) * tan (E / 2))
      in theta)"

text \<open>
  The arguments that \<open>deriveAngularMomentum\<close> validates are doubles: a finite value, one
  of the two infinities, or NaN. \<open>numLt\<close>, \<open>numGt\<close>, \<open>numGe\<close> and \<open>numLe\<close> are the
  operators \<open><\<close>, \<open>>\<close>, \<open>>=\<close> and \<open><=\<close> of the language on them: every comparison
  with NaN is false.
\<close>

datatype number = Finite real | PosInfinity | NegInfinity | NaN

fun numLt :: "number \<Rightarrow> number \<Rightarrow> bool" where
  "numLt (Finite a) (Finite b) = (a < b)"
| "numLt (Finite a) PosInfinity = True"
| "numLt NegInfinity (Finite b) = True"
| "numLt NegInfinity PosInfinity = True"
| "numLt _ _ = False"

definition numGt :: "number \<Rightarrow> number \<Rightarrow> bool" where
  "numGt a b = numLt b a"

definition numGe :: "number \<Rightarrow> number \<Rightarrow> bool" where
  "numGe a b = (a \<noteq> NaN \<and> b \<noteq> NaN \<and> \<not> numLt a b)"

definition numLe :: "number \<Rightarrow> number \<Rightarrow> bool" where
  "numLe a b = (a \<noteq> NaN \<and> b \<noteq> NaN \<and> \<not> numLt b a)"

text \<open>
  Past the two tests the eccentricity is finite and the mean motion is finite or
  \<open>+Infinity\<close>. For a finite mean motion the arithmetic is that of the reals. For an
  infinite one \<open>nRadPerSec\<close> and its square are infinite, \<open>mu\<close> divided by it is zero, and
  so are its cube root, the product under the square root and the result. No other case
  of the pattern is reached. The gravitational parameter is not tested and is a real.
\<close>

definition deriveAngularMomentum :: "number \<Rightarrow> number \<Rightarrow> real \<Rightarrow> error + real" where
  "deriveAngularMomentum ecc meanMotionRevPerDay mu =
     (if \<not> (numGe ecc (Finite 0) \<and> numLt ecc (Finite 1)) then
        Inl (Error [Lit ''eccentricity must be in [0,1).''])
      else if \<not> (numGt meanMotionRevPerDay (Finite 0)) then
        Inl (Error [Lit ''meanMotionRevPerDay must be > 0.''])
      else
        (case (ecc, meanMotionRevPerDay) of
           (Finite e, Finite n) \<Rightarrow>
             (let nRadPerSec = (n * 2 * pi) / 86400;
                  a = root 3 (mu / (nRadPerSec * nRadPerSec))
              in Inr (sqrt (mu * a * (1 - e * e))))
         | _ \<Rightarrow> Inr 0))"

section \<open>The validating functions with the statements they execute\<close>

text \<open>
  To say when a function raises, relative to its other work, its body is written once
  more as a sequence of statements: the outcome comes with the names of the \<open>const\<close>
  bindings (and of the final \<open>return\<close>) whose right-hand sides have been evaluated, in
  the order of the source. \<open>raise\<close> evaluates none, \<open>compute\<close> evaluates one, and
  \<open>thenDo\<close> runs the rest of the body only after a statement that did not raise. Reading
  the field \<open>eccentricity\<close> and testing a guard are not statements of this kind.
\<close>

type_synonym 'a traced = "(error + 'a) \<times> string list"

definition raise :: "error \<Rightarrow> 'a traced" where
  "raise err = (Inl err, [])"

definition compute :: "string \<Rightarrow> 'a \<Rightarrow> 'a traced" where
  "compute name v = (Inr v, [name])"

definition thenDo :: "'a traced \<Rightarrow> ('a \<Rightarrow> 'b traced) \<Rightarrow> 'b traced" where
  "thenDo m k =
     (case m of
        (Inl err, steps) \<Rightarrow> (Inl err, steps)
      | (Inr v, steps) \<Rightarrow> (case k v of (r, rest) \<Rightarrow> (r, steps @ rest)))"

definition propagateYATraced ::
  "RelativeState \<Rightarrow> OrbitalElements \<Rightarrow> TrueAnomaly \<Rightarrow> TrueAnomaly \<Rightarrow> real \<Rightarrow> Frame
     \<Rightarrow> RelativeState traced" where
  "propagateYATraced initialState elements theta0 thetaF deltaTime frame =
     (let e = eccentricity elements in
      if e < 0 \<or> e \<ge> 1 then
        raise (Error [Lit ''Eccentricity must be in range [0, 1), got '', Num e])
      else
        thenDo (compute ''internalInitial'' (toInternalFromFrame initialState frame))
          (\<lambda>internalInitial.
        thenDo (compute ''modifiedInitial''
                  (toModifiedCoordinates internalInitial elements theta0))
          (\<lambda>modifiedInitial.
        thenDo (compute ''JValue'' (J elements deltaTime))
          (\<lambda>JValue.
        thenDo (compute ''inPlaneInitial''
                  \<lparr>x = at0 (position modifiedInitial),
                   z = at2 (position modifiedInitial),
                   vx = at0 (velocity modifiedInitial),
                   vz = at2 (velocity modifiedInitial)\<rparr>)
          (\<lambda>inPlaneInitial.
        thenDo (compute ''pseudoInPlane'' (computePseudoInitialInPlane inPlaneInitial e theta0))
          (\<lambda>pseudoInPlane.
        thenDo (compute ''finalInPlane'' (propagateInPlane pseudoInPlane e thetaF JValue))
          (\<lambda>finalInPlane.
        thenDo (compute ''outOfPlaneInitial''
                  \<lparr>y = at1 (position modifiedInitial),
                   vy = at1 (velocity modifiedInitial)\<rparr>)
          (\<lambda>outOfPlaneInitial.
        thenDo (compute ''finalOutOfPlane''
                  (propagateOutOfPlane outOfPlaneInitial e theta0 thetaF))
          (\<lambda>finalOutOfPlane.
        thenDo (compute ''modifiedFinal''
                  \<lparr>position = (x finalInPlane, y finalOutOfPlane, z finalInPlane),
                   velocity = (vx finalInPlane, vy finalOutOfPlane, vz finalInPlane)\<rparr>)
          (\<lambda>modifiedFinal.
        thenDo (compute ''finalTrueInternal''
                  (fromModifiedCoordinates modifiedFinal elements thetaF))
          (\<lambda>finalTrueInternal.
        compute ''return'' (fromInternalToFrame finalTrueInternal frame))))))))))))"

definition deriveAngularMomentumTraced :: "number \<Rightarrow> number \<Rightarrow> real \<Rightarrow> real traced" where
  "deriveAngularMomentumTraced ecc meanMotionRevPerDay mu =
     (if \<not> (numGe ecc (Finite 0) \<and> numLt ecc (Finite 1)) then
        raise (Error [Lit ''eccentricity must be in [0,1).''])
      else if \<not> (numGt meanMotionRevPerDay (Finite 0)) then
        raise (Error [Lit ''meanMotionRevPerDay must be > 0.''])
      else
        (case (ecc, meanMotionRevPerDay) of
           (Finite e, Finite n) \<Rightarrow>
             thenDo (compute ''nRadPerSec'' ((n * 2 * pi) / 86400))
               (\<lambda>nRadPerSec.
             thenDo (compute ''a'' (root 3 (mu / (nRadPerSec * nRadPerSec))))
               (\<lambda>a.
             compute ''return'' (sqrt (mu * a * (1 - e * e)))))
         | _ \<Rightarrow> (Inr 0, [''nRadPerSec'', ''a'', ''return''])))"

section \<open>Notions used in the statements and proofs\<close>

text \<open>
  The elliptical propagation splits the modified state into its in-plane and out-of-plane
  parts and puts the two propagated parts together again; the three steps are named here.
\<close>

definition inPlaneOf :: "RelativeState \<Rightarrow> InPlaneState" where
  "inPlaneOf m = \<lparr>x = at0 (position m), z = at2 (position m),
                  vx = at0 (velocity m), vz = at2 (velocity m)\<rparr>"

definition outOfPlaneOf :: "RelativeState \<Rightarrow> OutOfPlaneState" where
  "outOfPlaneOf m = \<lparr>y = at1 (position m), vy = at1 (velocity m)\<rparr>"

definition recombine :: "InPlaneState \<Rightarrow> OutOfPlaneState \<Rightarrow> RelativeState" where
  "recombine a b = \<lparr>position = (x a, y b, z a), velocity = (vx a, vy b, vz a)\<rparr>"

text \<open>
  The secular drift of the in-plane transition acts on the pseudo-initial state as a shear
  along its last component.
\<close>

definition shear :: "real \<Rightarrow> real \<Rightarrow> InPlaneState \<Rightarrow> InPlaneState" where
  "shear e Jv p = \<lparr>x = x p + 3 * Jv * vz p, z = z p - 3 * e * Jv * vz p,
                   vx = vx p, vz = vz p\<rparr>"

text \<open>The update \<open>deltaE\<close> of one Newton iteration, and the iteration itself.\<close>

definition newtonDelta :: "real \<Rightarrow> real \<Rightarrow> real \<Rightarrow> real" where
  "newtonDelta meanAnomaly ecc E =
     (E - ecc * sin E - meanAnomaly) / (1 - ecc * cos E)"

definition newtonStep :: "real \<Rightarrow> real \<Rightarrow> real \<Rightarrow> real" where
  "newtonStep meanAnomaly ecc E = E - newtonDelta meanAnomaly ecc E"

text \<open>The all-zero states.\<close>

definition zeroState :: RelativeState where
  "zeroState = \<lparr>position = (0, 0, 0), velocity = (0, 0, 0)\<rparr>"

definition zeroInPlane :: InPlaneState where
  "zeroInPlane = \<lparr>x = 0, z = 0, vx = 0, vz = 0\<rparr>"

definition zeroOutOfPlane :: OutOfPlaneState where
  "zeroOutOfPlane = \<lparr>y = 0, vy = 0\<rparr>"

section \<open>Basic facts about the auxiliary scalars\<close>

text \<open>
  For an eccentricity in \<open>[0, 1)\<close> the scalars \<open>rho\<close> and \<open>1 - e\<^sup>2\<close> are positive, and
  for a positive angular momentum \<open>kSquared\<close> is \<open>mu\<^sup>2 / h\<^sup>3\<close>. These are the
  denominators of the program.
\<close>

lemma rho_pos: "0 \<le> e \<Longrightarrow> e < 1 \<Longrightarrow> 0 < rho e th"
proof -
  assume a: "0 \<le> e" "e < 1"
  have "- 1 \<le> cos th" by simp
  then have "e * (- 1) \<le> e * cos th" using a(1) by (rule mult_left_mono)
  then show ?thesis using a(2) by (simp add: rho_def)
qed

lemma one_minus_e2_pos: "0 \<le> e \<Longrightarrow> e < 1 \<Longrightarrow> 0 < 1 - e * (e::real)"
proof -
  assume a: "0 \<le> e" "e < 1"
  have "e * e \<le> e * 1" using a by (intro mult_left_mono) simp_all
  then show ?thesis using a by simp
qed

lemma kSquared_eq:
  assumes h: "0 < angularMomentum el"
  shows "kSquared el = (gravitationalParameter el)\<^sup>2 / (angularMomentum el) ^ 3"
proof -
  have "(angularMomentum el powr (3 / 2)) * (angularMomentum el powr (3 / 2))
        = angularMomentum el powr 3"
    by (simp flip: powr_add)
  also have "\<dots> = angularMomentum el ^ 3"
    using h by simp
  finally show ?thesis
    by (simp add: kSquared_def Let_def power2_eq_square)
qed

lemma kSquared_pos:
  "0 < angularMomentum el \<Longrightarrow> 0 < gravitationalParameter el \<Longrightarrow> 0 < kSquared el"
  by (simp add: kSquared_eq)

lemma J_minus: "J el (- dt) = - J el dt"
  by (simp add: J_def)

section \<open>Frame conversions are mutually inverse\<close>

lemma toInternal_fromInternal: "toInternalFromFrame (fromInternalToFrame st f) f = st"
  by (cases f) (simp_all add: toInternalFromFrame_def fromInternalToFrame_def
        split: prod.splits)

lemma fromInternal_toInternal: "fromInternalToFrame (toInternalFromFrame st f) f = st"
  by (cases f) (simp_all add: toInternalFromFrame_def fromInternalToFrame_def
        split: prod.splits)

text \<open>
  C5. For every relative state and both frame tags, converting to the internal ordering
  and back returns the state unchanged, and so does converting from the internal
  ordering and back: both maps only reorder components.
\<close>

theorem frame_roundtrip:
  "fromInternalToFrame (toInternalFromFrame st f) f = st
   \<and> toInternalFromFrame (fromInternalToFrame st f) f = st"
  by (cases f) (simp_all add: toInternalFromFrame_def fromInternalToFrame_def
        split: prod.splits)

section \<open>The modified-coordinate transform and its inverse\<close>

lemma from_to_component:
  fixes r k q p v :: real
  assumes "r \<noteq> 0" "k \<noteq> 0"
  shows "r * p / r = p"
    and "k * (q * (r * p) + r * (- q * p + v / (k * r))) = v"
  using assms by (simp_all add: field_simps)

lemma fromModified_toModified:
  assumes e: "0 \<le> eccentricity el" "eccentricity el < 1"
    and h: "0 < angularMomentum el" and mu: "0 < gravitationalParameter el"
  shows "fromModifiedCoordinates (toModifiedCoordinates st el th) el th = st"
proof -
  have r: "rho (eccentricity el) th \<noteq> 0" using rho_pos [OF e, of th] by simp
  have k: "kSquared el \<noteq> 0" using kSquared_pos [OF h mu] by simp
  show ?thesis
    unfolding fromModifiedCoordinates_def toModifiedCoordinates_def Let_def
    by (simp add: from_to_component [OF r k] del: mult_minus_left)
qed

lemma toModified_fromModified:
  assumes e: "0 \<le> eccentricity el" "eccentricity el < 1"
    and h: "0 < angularMomentum el" and mu: "0 < gravitationalParameter el"
  shows "toModifiedCoordinates (fromModifiedCoordinates m el th) el th = m"
proof -
  have r: "rho (eccentricity el) th \<noteq> 0" using rho_pos [OF e, of th] by simp
  have k: "kSquared el \<noteq> 0" using kSquared_pos [OF h mu] by simp
  show ?thesis
    unfolding fromModifiedCoordinates_def toModifiedCoordinates_def Let_def
    using r k by (simp add: field_simps)
qed

text \<open>
  C2. For orbital elements with eccentricity in \<open>[0, 1)\<close>, positive angular momentum and
  positive gravitational parameter, every true anomaly and every relative state,
  transforming to modified coordinates and back gives the state again, exactly; so does
  transforming from modified coordinates and back. The two transforms are inverse to each
  other.
\<close>

theorem modified_roundtrip:
  assumes "0 \<le> eccentricity el" "eccentricity el < 1"
    and "0 < angularMomentum el" and "0 < gravitationalParameter el"
  shows "fromModifiedCoordinates (toModifiedCoordinates st el theta) el theta = st
    \<and> toModifiedCoordinates (fromModifiedCoordinates st el theta) el theta = st"
  using fromModified_toModified [OF assms] toModified_fromModified [OF assms] by simp

theorem modified_roundtrip_witness:
  "(0::real) \<le> eccentricity \<lparr>eccentricity = 1 / 2, angularMomentum = 2,
        gravitationalParameter = 3\<rparr>
   \<and> eccentricity \<lparr>eccentricity = 1 / 2, angularMomentum = 2,
        gravitationalParameter = 3\<rparr> < 1
   \<and> 0 < angularMomentum \<lparr>eccentricity = 1 / 2, angularMomentum = 2,
        gravitationalParameter = 3\<rparr>
   \<and> 0 < gravitationalParameter \<lparr>eccentricity = 1 / 2, angularMomentum = 2,
        gravitationalParameter = 3\<rparr>
   \<and> fromModifiedCoordinates
        (toModifiedCoordinates \<lparr>position = (100, 200, 50), velocity = (1 / 2, - 1 / 5, 1 / 10)\<rparr>
           \<lparr>eccentricity = 1 / 2, angularMomentum = 2, gravitationalParameter = 3\<rparr> 1)
        \<lparr>eccentricity = 1 / 2, angularMomentum = 2, gravitationalParameter = 3\<rparr> 1
      = \<lparr>position = (100, 200, 50), velocity = (1 / 2, - 1 / 5, 1 / 10)\<rparr>"
  using modified_roundtrip
    [where el = "\<lparr>eccentricity = 1 / 2, angularMomentum = 2, gravitationalParameter = 3\<rparr>"
       and st = "\<lparr>position = (100, 200, 50), velocity = (1 / 2, - 1 / 5, 1 / 10)\<rparr>"
       and theta = 1]
  by simp

section \<open>Out-of-plane transition\<close>

lemma outOfPlane_rotate_back:
  fixes a b S C u v :: real
  assumes ab: "a * b = 1" and sc: "S\<^sup>2 + C\<^sup>2 = 1"
  shows "b * (C * (a * (C * u + S * v)) + - S * (a * (- S * u + C * v))) = u"
    and "b * (- (- S) * (a * (C * u + S * v)) + C * (a * (- S * u + C * v))) = v"
proof -
  have "b * (C * (a * (C * u + S * v)) + - S * (a * (- S * u + C * v)))
        = (a * b) * ((S\<^sup>2 + C\<^sup>2) * u)"
    by algebra
  then show "b * (C * (a * (C * u + S * v)) + - S * (a * (- S * u + C * v))) = u"
    by (simp only: ab sc mult_1)
  have "b * (- (- S) * (a * (C * u + S * v)) + C * (a * (- S * u + C * v)))
        = (a * b) * ((S\<^sup>2 + C\<^sup>2) * v)"
    by algebra
  then show "b * (- (- S) * (a * (C * u + S * v)) + C * (a * (- S * u + C * v))) = v"
    by (simp only: ab sc mult_1)
qed

lemma y_propagateOutOfPlane:
  "y (propagateOutOfPlane st e theta0 theta) =
     1 / (rho e theta / rho e theta0)
       * (cos (theta - theta0) * y st + sin (theta - theta0) * vy st)"
  unfolding propagateOutOfPlane_def Let_def by simp

lemma vy_propagateOutOfPlane:
  "vy (propagateOutOfPlane st e theta0 theta) =
     1 / (rho e theta / rho e theta0)
       * (- sin (theta - theta0) * y st + cos (theta - theta0) * vy st)"
  unfolding propagateOutOfPlane_def Let_def by simp

lemma factor_reciprocal:
  assumes "0 \<le> e" "e < 1"
  shows "1 / (rho e theta / rho e theta0) * (1 / (rho e theta0 / rho e theta)) = 1"
  using rho_pos [OF assms, of theta0] rho_pos [OF assms, of theta] by simp

lemma outOfPlane_there_and_back:
  assumes "0 \<le> e" "e < 1"
  shows "propagateOutOfPlane (propagateOutOfPlane st e theta0 theta) e theta theta0 = st"
proof -
  have sc: "sin (theta0 - theta) = - sin (theta - theta0)"
           "cos (theta0 - theta) = cos (theta - theta0)"
    using sin_minus [of "theta - theta0"] cos_minus [of "theta - theta0"] by simp_all
  have one: "(sin (theta - theta0))\<^sup>2 + (cos (theta - theta0))\<^sup>2 = 1" by simp
  note ab = factor_reciprocal [OF assms, of theta theta0]
  show ?thesis
  proof (rule OutOfPlaneState.equality)
    show "y (propagateOutOfPlane (propagateOutOfPlane st e theta0 theta) e theta theta0) = y st"
      unfolding y_propagateOutOfPlane vy_propagateOutOfPlane sc
      by (rule outOfPlane_rotate_back(1) [OF ab one])
    show "vy (propagateOutOfPlane (propagateOutOfPlane st e theta0 theta) e theta theta0) = vy st"
      unfolding y_propagateOutOfPlane vy_propagateOutOfPlane sc
      by (rule outOfPlane_rotate_back(2) [OF ab one])
  qed simp
qed

text \<open>
  C4. For every eccentricity in \<open>[0, 1)\<close>, every out-of-plane state and all anomalies,
  the transition from \<open>theta\<close> back to \<open>theta0\<close> undoes the transition from \<open>theta0\<close> to
  \<open>theta\<close>; the scale factors of the two steps are reciprocal.
\<close>

theorem outOfPlane_self_inverse:
  assumes "0 \<le> e" "e < 1"
  shows "propagateOutOfPlane (propagateOutOfPlane st e theta0 theta) e theta theta0 = st
    \<and> 1 / (rho e theta / rho e theta0) * (1 / (rho e theta0 / rho e theta)) = 1"
  using outOfPlane_there_and_back [OF assms] factor_reciprocal [OF assms] by simp

theorem outOfPlane_self_inverse_witness:
  "(0::real) \<le> 1 / 2 \<and> (1 / 2 :: real) < 1
   \<and> propagateOutOfPlane (propagateOutOfPlane \<lparr>y = 100, vy = 3\<rparr> (1 / 2) 0 1) (1 / 2) 1 0
       = \<lparr>y = 100, vy = 3\<rparr>
   \<and> 1 / (rho (1 / 2) 1 / rho (1 / 2) 0) * (1 / (rho (1 / 2) 0 / rho (1 / 2) 1)) = 1"
  using outOfPlane_self_inverse
    [where e = "1 / 2" and st = "\<lparr>y = 100, vy = 3\<rparr>" and ?theta0.0 = 0 and theta = 1]
  by simp

section \<open>In-plane transition\<close>

text \<open>
  The fields of the two in-plane maps, as the program computes them.
\<close>

lemma x_propagateInPlane:
  "x (propagateInPlane p e theta Jv) =
     1 * x p
     + - c e theta * (1 + 1 / rho e theta) * z p
     + s e theta * (1 + 1 / rho e theta) * vx p
     + 3 * rho e theta * rho e theta * Jv * vz p"
  unfolding propagateInPlane_def Let_def by simp

lemma z_propagateInPlane:
  "z (propagateInPlane p e theta Jv) =
     0 * x p
     + s e theta * z p
     + c e theta * vx p
     + (2 - 3 * e * s e theta * Jv) * vz p"
  unfolding propagateInPlane_def Let_def by simp

lemma vx_propagateInPlane:
  "vx (propagateInPlane p e theta Jv) =
     0 * x p
     + 2 * s e theta * z p
     + (2 * c e theta - e) * vx p
     + 3 * (1 - 2 * e * s e theta * Jv) * vz p"
  unfolding propagateInPlane_def Let_def by simp

lemma vz_propagateInPlane:
  "vz (propagateInPlane p e theta Jv) =
     0 * x p
     + sPrime e theta * z p
     + cPrime e theta * vx p
     + - 3 * e * (sPrime e theta * Jv + s e theta / (rho e theta * rho e theta)) * vz p"
  unfolding propagateInPlane_def Let_def by simp

lemma x_pseudo:
  "x (computePseudoInitialInPlane st e theta0) =
     1 / (1 - e * e) *
            ((1 - e * e) * x st
             + 3 * e * (s e theta0 / rho e theta0) * (1 + 1 / rho e theta0) * z st
             + - e * s e theta0 * (1 + 1 / rho e theta0) * vx st
             + (- e * c e theta0 + 2) * vz st)"
  unfolding computePseudoInitialInPlane_def Let_def by simp

lemma z_pseudo:
  "z (computePseudoInitialInPlane st e theta0) =
     1 / (1 - e * e) *
            (0
             + - 3 * (s e theta0 / rho e theta0) * (1 + (e * e) / rho e theta0) * z st
             + s e theta0 * (1 + 1 / rho e theta0) * vx st
             + (c e theta0 - 2 * e) * vz st)"
  unfolding computePseudoInitialInPlane_def Let_def by simp

lemma vx_pseudo:
  "vx (computePseudoInitialInPlane st e theta0) =
     1 / (1 - e * e) *
            (0
             + - 3 * (c e theta0 / rho e theta0 + e) * z st
             + (c e theta0 * (1 + 1 / rho e theta0) + e) * vx st
             + - s e theta0 * vz st)"
  unfolding computePseudoInitialInPlane_def Let_def by simp

lemma vz_pseudo:
  "vz (computePseudoInitialInPlane st e theta0) =
     1 / (1 - e * e) *
            (0
             + (3 * rho e theta0 + e * e - 1) * z st
             + - rho e theta0 * rho e theta0 * vx st
             + e * s e theta0 * vz st)"
  unfolding computePseudoInitialInPlane_def Let_def by simp

lemmas inPlane_fields =
  x_propagateInPlane z_propagateInPlane vx_propagateInPlane vz_propagateInPlane
  x_pseudo z_pseudo vx_pseudo vz_pseudo

lemmas aux_unfold = s_def c_def sPrime_def cPrime_def Let_def sin_double cos_double
  divide_inverse inverse_mult_distrib

text \<open>
  The pseudo-initial map at \<open>theta\<close> is the two-sided inverse of the transition to
  \<open>theta\<close> with \<open>J = 0\<close>, and a transition with drift \<open>J\<close> is the drift-free transition
  after a shear of the pseudo-initial state.
\<close>

lemma inPlane_pseudo_then_propagate:
  assumes e: "0 \<le> e" "e < 1"
  shows "propagateInPlane (computePseudoInitialInPlane st e th) e th 0 = st"
proof -
  have sc: "sin th * sin th + cos th * cos th = 1"
    using sin_cos_squared_add [of th] by (simp add: power2_eq_square)
  have q: "inverse (rho e th) * rho e th = 1"
    using rho_pos [OF e, of th] by simp
  have g: "inverse (1 - e * e) * (1 - e * e) = 1"
    using one_minus_e2_pos [OF e] by simp
  have r: "rho e th = 1 + e * cos th" by (simp add: rho_def)
  show ?thesis
  proof (rule InPlaneState.equality)
    show "x (propagateInPlane (computePseudoInitialInPlane st e th) e th 0) = x st"
      unfolding inPlane_fields aux_unfold using sc q g r by algebra
    show "z (propagateInPlane (computePseudoInitialInPlane st e th) e th 0) = z st"
      unfolding inPlane_fields aux_unfold using sc q g r by algebra
    show "vx (propagateInPlane (computePseudoInitialInPlane st e th) e th 0) = vx st"
      unfolding inPlane_fields aux_unfold using sc q g r by algebra
    show "vz (propagateInPlane (computePseudoInitialInPlane st e th) e th 0) = vz st"
      unfolding inPlane_fields aux_unfold using sc q g r by algebra
  qed simp
qed

lemma inPlane_propagate_then_pseudo:
  assumes e: "0 \<le> e" "e < 1"
  shows "computePseudoInitialInPlane (propagateInPlane p e th 0) e th = p"
proof -
  have sc: "sin th * sin th + cos th * cos th = 1"
    using sin_cos_squared_add [of th] by (simp add: power2_eq_square)
  have q: "inverse (rho e th) * rho e th = 1"
    using rho_pos [OF e, of th] by simp
  have g: "inverse (1 - e * e) * (1 - e * e) = 1"
    using one_minus_e2_pos [OF e] by simp
  have r: "rho e th = 1 + e * cos th" by (simp add: rho_def)
  show ?thesis
  proof (rule InPlaneState.equality)
    show "x (computePseudoInitialInPlane (propagateInPlane p e th 0) e th) = x p"
      unfolding inPlane_fields aux_unfold using sc q g r by algebra
    show "z (computePseudoInitialInPlane (propagateInPlane p e th 0) e th) = z p"
      unfolding inPlane_fields aux_unfold using sc q g r by algebra
    show "vx (computePseudoInitialInPlane (propagateInPlane p e th 0) e th) = vx p"
      unfolding inPlane_fields aux_unfold using sc q g r by algebra
    show "vz (computePseudoInitialInPlane (propagateInPlane p e th 0) e th) = vz p"
      unfolding inPlane_fields aux_unfold using sc q g r by algebra
  qed simp
qed

lemma shear_fields:
  "x (shear e Jv p) = x p + 3 * Jv * vz p"
  "z (shear e Jv p) = z p - 3 * e * Jv * vz p"
  "vx (shear e Jv p) = vx p"
  "vz (shear e Jv p) = vz p"
  by (simp_all add: shear_def)

lemma propagateInPlane_shear:
  assumes e: "0 \<le> e" "e < 1"
  shows "propagateInPlane p e th Jv = propagateInPlane (shear e Jv p) e th 0"
proof -
  have q: "inverse (rho e th) * rho e th = 1"
    using rho_pos [OF e, of th] by simp
  have r: "rho e th = 1 + e * cos th" by (simp add: rho_def)
  show ?thesis
  proof (rule InPlaneState.equality)
    show "x (propagateInPlane p e th Jv) = x (propagateInPlane (shear e Jv p) e th 0)"
      unfolding inPlane_fields shear_fields aux_unfold using q r by algebra
    show "z (propagateInPlane p e th Jv) = z (propagateInPlane (shear e Jv p) e th 0)"
      unfolding inPlane_fields shear_fields aux_unfold by algebra
    show "vx (propagateInPlane p e th Jv) = vx (propagateInPlane (shear e Jv p) e th 0)"
      unfolding inPlane_fields shear_fields aux_unfold by algebra
    show "vz (propagateInPlane p e th Jv) = vz (propagateInPlane (shear e Jv p) e th 0)"
      unfolding inPlane_fields shear_fields aux_unfold by algebra
  qed (simp add: propagateInPlane_def Let_def)
qed

lemma shear_inverse: "shear e (- Jv) (shear e Jv p) = p"
  by (simp add: shear_def)

section \<open>Elliptical propagation\<close>

lemma propagateYA_valid:
  assumes "0 \<le> eccentricity el" "eccentricity el < 1"
  shows "propagateYA st el theta0 thetaF dt f =
    Inr (fromInternalToFrame
      (fromModifiedCoordinates
        (recombine
          (propagateInPlane
            (computePseudoInitialInPlane
              (inPlaneOf (toModifiedCoordinates (toInternalFromFrame st f) el theta0))
              (eccentricity el) theta0)
            (eccentricity el) thetaF (J el dt))
          (propagateOutOfPlane
            (outOfPlaneOf (toModifiedCoordinates (toInternalFromFrame st f) el theta0))
            (eccentricity el) theta0 thetaF))
        el thetaF) f)"
  using assms
  by (simp add: propagateYA_def Let_def inPlaneOf_def outOfPlaneOf_def recombine_def)

lemma split_recombine [simp]:
  "inPlaneOf (recombine a b) = a" "outOfPlaneOf (recombine a b) = b"
  by (simp_all add: inPlaneOf_def outOfPlaneOf_def recombine_def)

lemma recombine_split [simp]: "recombine (inPlaneOf m) (outOfPlaneOf m) = m"
  by (simp add: inPlaneOf_def outOfPlaneOf_def recombine_def)

lemma propagateYA_back:
  assumes e: "0 \<le> eccentricity el" "eccentricity el < 1"
    and h: "0 < angularMomentum el" and mu: "0 < gravitationalParameter el"
  shows "propagateYA
           (fromInternalToFrame
             (fromModifiedCoordinates
               (recombine
                 (propagateInPlane
                   (computePseudoInitialInPlane
                     (inPlaneOf (toModifiedCoordinates (toInternalFromFrame st f) el theta0))
                     (eccentricity el) theta0)
                   (eccentricity el) thetaF (J el dt))
                 (propagateOutOfPlane
                   (outOfPlaneOf (toModifiedCoordinates (toInternalFromFrame st f) el theta0))
                   (eccentricity el) theta0 thetaF))
               el thetaF) f)
           el thetaF theta0 (- dt) f = Inr st"
proof -
  define m0 where "m0 = toModifiedCoordinates (toInternalFromFrame st f) el theta0"
  define P0 where "P0 = computePseudoInitialInPlane (inPlaneOf m0) (eccentricity el) theta0"
  have back_in:
    "propagateInPlane
       (computePseudoInitialInPlane
          (propagateInPlane P0 (eccentricity el) thetaF (J el dt)) (eccentricity el) thetaF)
       (eccentricity el) theta0 (J el (- dt)) = inPlaneOf m0"
  proof -
    have "computePseudoInitialInPlane
            (propagateInPlane P0 (eccentricity el) thetaF (J el dt)) (eccentricity el) thetaF
          = shear (eccentricity el) (J el dt) P0"
      by (simp only: propagateInPlane_shear [OF e, of P0 thetaF "J el dt"]
            inPlane_propagate_then_pseudo [OF e])
    then have "propagateInPlane
       (computePseudoInitialInPlane
          (propagateInPlane P0 (eccentricity el) thetaF (J el dt)) (eccentricity el) thetaF)
       (eccentricity el) theta0 (J el (- dt))
       = propagateInPlane P0 (eccentricity el) theta0 0"
      by (simp only: J_minus
            propagateInPlane_shear [OF e, of "shear (eccentricity el) (J el dt) P0" theta0 "- J el dt"]
            shear_inverse)
    then show ?thesis
      by (simp only: P0_def inPlane_pseudo_then_propagate [OF e])
  qed
  have back_m0: "fromModifiedCoordinates m0 el theta0 = toInternalFromFrame st f"
    unfolding m0_def by (rule fromModified_toModified [OF e h mu])
  show ?thesis
    unfolding propagateYA_valid [OF e] toInternal_fromInternal
      toModified_fromModified [OF e h mu] split_recombine
    unfolding m0_def [symmetric] P0_def [symmetric]
    by (simp only: back_in outOfPlane_there_and_back [OF e] recombine_split back_m0
          fromInternal_toInternal)
qed

text \<open>
  C3. For orbital elements with eccentricity in \<open>[0, 1)\<close>, positive angular momentum and
  positive gravitational parameter: propagating a state from \<open>theta0\<close> to \<open>thetaF\<close> over
  \<open>deltaTime\<close> and then from \<open>thetaF\<close> to \<open>theta0\<close> over \<open>- deltaTime\<close>, in the same frame,
  succeeds and returns the initial state.
\<close>

theorem forward_backward:
  assumes e: "0 \<le> eccentricity el" "eccentricity el < 1"
    and h: "0 < angularMomentum el" and mu: "0 < gravitationalParameter el"
  shows "(case propagateYA st el theta0 thetaF deltaTime frame of
            Inl err \<Rightarrow> Inl err
          | Inr st' \<Rightarrow> propagateYA st' el thetaF theta0 (- deltaTime) frame) = Inr st"
proof -
  note fwd = propagateYA_valid [OF e, of st theta0 thetaF deltaTime frame]
  show ?thesis
    by (simp only: fwd sum.case propagateYA_back [OF e h mu])
qed

theorem forward_backward_witness:
  "(0::real) \<le> eccentricity \<lparr>eccentricity = 1 / 10, angularMomentum = 2,
        gravitationalParameter = 3\<rparr>
   \<and> eccentricity \<lparr>eccentricity = 1 / 10, angularMomentum = 2,
        gravitationalParameter = 3\<rparr> < 1
   \<and> 0 < angularMomentum \<lparr>eccentricity = 1 / 10, angularMomentum = 2,
        gravitationalParameter = 3\<rparr>
   \<and> 0 < gravitationalParameter \<lparr>eccentricity = 1 / 10, angularMomentum = 2,
        gravitationalParameter = 3\<rparr>
   \<and> (case propagateYA \<lparr>position = (100, 200, 50), velocity = (1 / 2, - 1 / 5, 1 / 10)\<rparr>
              \<lparr>eccentricity = 1 / 10, angularMomentum = 2, gravitationalParameter = 3\<rparr>
              0 1 1000 RIC of
         Inl err \<Rightarrow> Inl err
       | Inr st' \<Rightarrow> propagateYA st'
              \<lparr>eccentricity = 1 / 10, angularMomentum = 2, gravitationalParameter = 3\<rparr>
              1 0 (- 1000) RIC)
      = Inr \<lparr>position = (100, 200, 50), velocity = (1 / 2, - 1 / 5, 1 / 10)\<rparr>"
  using forward_backward
    [where el = "\<lparr>eccentricity = 1 / 10, angularMomentum = 2, gravitationalParameter = 3\<rparr>"
       and st = "\<lparr>position = (100, 200, 50), velocity = (1 / 2, - 1 / 5, 1 / 10)\<rparr>"
       and ?theta0.0 = 0 and thetaF = 1 and deltaTime = 1000 and frame = RIC]
  by simp

section \<open>The circular limit\<close>

lemma circular_aux:
  "rho 0 th = 1" "s 0 th = sin th" "c 0 th = cos th"
  "sPrime 0 th = cos th" "cPrime 0 th = - sin th"
  by (simp_all add: rho_def s_def c_def sPrime_def cPrime_def)

lemma circular_internal:
  assumes e: "eccentricity el = 0" and n: "0 < n" and k: "kSquared el = n"
    and pos: "position st = (x0, y0, z0)" and vel: "velocity st = (vx0, vy0, vz0)"
  shows "fromModifiedCoordinates
      (recombine
        (propagateInPlane
          (computePseudoInitialInPlane
            (inPlaneOf (toModifiedCoordinates st el theta0)) 0 theta0)
          0 thetaF (J el ((thetaF - theta0) / n)))
        (propagateOutOfPlane
          (outOfPlaneOf (toModifiedCoordinates st el theta0)) 0 theta0 thetaF))
      el thetaF
   = \<lparr>position =
        (x0 + 6 * ((thetaF - theta0) - sin (thetaF - theta0)) * z0
            + (1 / n) * (4 * sin (thetaF - theta0) - 3 * (thetaF - theta0)) * vx0
            + (2 / n) * (1 - cos (thetaF - theta0)) * vz0,
         cos (thetaF - theta0) * y0 + (1 / n) * sin (thetaF - theta0) * vy0,
         (4 - 3 * cos (thetaF - theta0)) * z0 + (2 / n) * (cos (thetaF - theta0) - 1) * vx0
            + (1 / n) * sin (thetaF - theta0) * vz0),
      velocity =
        (6 * n * (1 - cos (thetaF - theta0)) * z0 + (4 * cos (thetaF - theta0) - 3) * vx0
            + 2 * sin (thetaF - theta0) * vz0,
         - n * sin (thetaF - theta0) * y0 + cos (thetaF - theta0) * vy0,
         3 * n * sin (thetaF - theta0) * z0 + - 2 * sin (thetaF - theta0) * vx0
            + cos (thetaF - theta0) * vz0)\<rparr>"
proof -
  have Jv: "J el ((thetaF - theta0) / n) = thetaF - theta0"
    using n by (simp add: J_def k)
  show ?thesis
    unfolding fromModifiedCoordinates_def toModifiedCoordinates_def recombine_def
      inPlaneOf_def outOfPlaneOf_def propagateInPlane_def computePseudoInitialInPlane_def
      propagateOutOfPlane_def Jv Let_def e k circular_aux pos vel
    using n
    apply (simp add: sin_diff cos_diff)
    apply (simp add: field_simps)
    done
qed

text \<open>
  C1. For eccentricity \<open>0\<close>, positive angular momentum \<open>h\<close> and gravitational parameter
  \<open>mu\<close>, mean motion \<open>n = mu\<^sup>2 / h\<^sup>3\<close> and \<open>deltaTime = (thetaF - theta0) / n\<close>, the
  elliptical propagation returns the state that the circular closed form returns, for
  every initial state, all anomalies and both frames.
\<close>

theorem circular_limit:
  assumes e: "eccentricity el = 0"
    and h: "0 < angularMomentum el"
    and mu: "0 < gravitationalParameter el"
    and n: "n = (gravitationalParameter el)\<^sup>2 / (angularMomentum el) ^ 3"
    and dt: "deltaTime = (thetaF - theta0) / n"
  shows "propagateYA st el theta0 thetaF deltaTime frame
         = Inr (propagateHCW st n deltaTime frame)"
proof -
  have npos: "0 < n" using h mu by (simp add: n)
  have k: "kSquared el = n" by (simp add: kSquared_eq [OF h] n)
  have nt: "n * ((thetaF - theta0) / n) = thetaF - theta0" using npos by simp
  obtain x0 y0 z0 where pos: "position (toInternalFromFrame st frame) = (x0, y0, z0)"
    by (cases "position (toInternalFromFrame st frame)") auto
  obtain vx0 vy0 vz0 where vel: "velocity (toInternalFromFrame st frame) = (vx0, vy0, vz0)"
    by (cases "velocity (toInternalFromFrame st frame)") auto
  have valid: "0 \<le> eccentricity el" "eccentricity el < 1" by (simp_all add: e)
  have hcw: "propagateHCW st n ((thetaF - theta0) / n) frame =
     fromInternalToFrame
      (fromModifiedCoordinates
        (recombine
          (propagateInPlane
            (computePseudoInitialInPlane
              (inPlaneOf (toModifiedCoordinates (toInternalFromFrame st frame) el theta0))
              0 theta0)
            0 thetaF (J el ((thetaF - theta0) / n)))
          (propagateOutOfPlane
            (outOfPlaneOf (toModifiedCoordinates (toInternalFromFrame st frame) el theta0))
            0 theta0 thetaF))
        el thetaF) frame"
    unfolding circular_internal [OF e npos k pos vel]
    by (simp only: propagateHCW_def Let_def nt pos vel prod.case)
  show ?thesis
    unfolding dt propagateYA_valid [OF valid] hcw e ..
qed

theorem circular_limit_witness:
  "eccentricity \<lparr>eccentricity = 0, angularMomentum = 2, gravitationalParameter = 4\<rparr> = 0
   \<and> 0 < angularMomentum \<lparr>eccentricity = 0, angularMomentum = 2, gravitationalParameter = 4\<rparr>
   \<and> 0 < gravitationalParameter
          \<lparr>eccentricity = 0, angularMomentum = 2, gravitationalParameter = 4\<rparr>
   \<and> (2::real) = (gravitationalParameter
          \<lparr>eccentricity = 0, angularMomentum = 2, gravitationalParameter = 4\<rparr>)\<^sup>2
        / angularMomentum
          \<lparr>eccentricity = 0, angularMomentum = 2, gravitationalParameter = 4\<rparr> ^ 3
   \<and> (1 / 2 :: real) = (1 - 0) / 2
   \<and> propagateYA \<lparr>position = (100, 200, 50), velocity = (1 / 2, - 1 / 5, 1 / 10)\<rparr>
        \<lparr>eccentricity = 0, angularMomentum = 2, gravitationalParameter = 4\<rparr>
        0 1 (1 / 2) RIC
      = Inr (propagateHCW \<lparr>position = (100, 200, 50), velocity = (1 / 2, - 1 / 5, 1 / 10)\<rparr>
               2 (1 / 2) RIC)"
  using circular_limit
    [where el = "\<lparr>eccentricity = 0, angularMomentum = 2, gravitationalParameter = 4\<rparr>"
       and n = 2 and deltaTime = "1 / 2" and thetaF = 1 and ?theta0.0 = 0
       and st = "\<lparr>position = (100, 200, 50), velocity = (1 / 2, - 1 / 5, 1 / 10)\<rparr>"
       and frame = RIC]
  by simp

section \<open>The origin is a fixed point\<close>

lemma zero_split:
  "inPlaneOf zeroState = zeroInPlane" "outOfPlaneOf zeroState = zeroOutOfPlane"
  "recombine zeroInPlane zeroOutOfPlane = zeroState"
  by (simp_all add: inPlaneOf_def outOfPlaneOf_def recombine_def zeroState_def
        zeroInPlane_def zeroOutOfPlane_def)

lemma zero_frames:
  "toInternalFromFrame zeroState f = zeroState" "fromInternalToFrame zeroState f = zeroState"
  by (simp_all add: toInternalFromFrame_def fromInternalToFrame_def zeroState_def)

lemma zero_modified:
  "toModifiedCoordinates zeroState el th = zeroState"
  "fromModifiedCoordinates zeroState el th = zeroState"
  by (simp_all add: toModifiedCoordinates_def fromModifiedCoordinates_def zeroState_def Let_def)

lemma zero_inPlane:
  "computePseudoInitialInPlane zeroInPlane e th = zeroInPlane"
  "propagateInPlane zeroInPlane e th Jv = zeroInPlane"
  by (simp_all add: computePseudoInitialInPlane_def propagateInPlane_def zeroInPlane_def Let_def)

lemma zero_outOfPlane: "propagateOutOfPlane zeroOutOfPlane e th0 th = zeroOutOfPlane"
  by (simp add: propagateOutOfPlane_def zeroOutOfPlane_def Let_def)

lemma zero_HCW: "propagateHCW zeroState n dt f = zeroState"
  by (simp add: propagateHCW_def Let_def toInternalFromFrame_def fromInternalToFrame_def
        zeroState_def)

text \<open>
  C9. Every transform of the pipeline maps the all-zero state to the all-zero state: the
  two frame conversions, the two coordinate transforms, the pseudo-initial map, the
  in-plane and out-of-plane transitions, and hence the elliptical propagation (for valid
  orbital elements) and the circular closed form (for a non-zero orbital rate).
\<close>

theorem origin_fixed:
  assumes e: "0 \<le> eccentricity el" "eccentricity el < 1"
    and h: "0 < angularMomentum el" and mu: "0 < gravitationalParameter el"
    and n: "n \<noteq> 0"
  shows "toInternalFromFrame zeroState frame = zeroState
    \<and> fromInternalToFrame zeroState frame = zeroState
    \<and> toModifiedCoordinates zeroState el theta = zeroState
    \<and> fromModifiedCoordinates zeroState el theta = zeroState
    \<and> computePseudoInitialInPlane zeroInPlane (eccentricity el) theta0 = zeroInPlane
    \<and> propagateInPlane zeroInPlane (eccentricity el) theta Jv = zeroInPlane
    \<and> propagateOutOfPlane zeroOutOfPlane (eccentricity el) theta0 theta = zeroOutOfPlane
    \<and> propagateYA zeroState el theta0 thetaF deltaTime frame = Inr zeroState
    \<and> propagateHCW zeroState n deltaTime frame = zeroState"
proof -
  have "propagateYA zeroState el theta0 thetaF deltaTime frame = Inr zeroState"
    unfolding propagateYA_valid [OF e]
    by (simp only: zero_frames zero_modified zero_split zero_inPlane zero_outOfPlane)
  then show ?thesis
    by (simp only: zero_frames zero_modified zero_inPlane zero_outOfPlane zero_HCW simp_thms)
qed

theorem origin_fixed_witness:
  "(0::real) \<le> eccentricity \<lparr>eccentricity = 1 / 10, angularMomentum = 2,
        gravitationalParameter = 3\<rparr>
   \<and> eccentricity \<lparr>eccentricity = 1 / 10, angularMomentum = 2,
        gravitationalParameter = 3\<rparr> < 1
   \<and> 0 < angularMomentum \<lparr>eccentricity = 1 / 10, angularMomentum = 2,
        gravitationalParameter = 3\<rparr>
   \<and> 0 < gravitationalParameter \<lparr>eccentricity = 1 / 10, angularMomentum = 2,
        gravitationalParameter = 3\<rparr>
   \<and> (1::real) \<noteq> 0
   \<and> propagateYA zeroState
        \<lparr>eccentricity = 1 / 10, angularMomentum = 2, gravitationalParameter = 3\<rparr>
        0 1 1000 RIC = Inr zeroState
   \<and> propagateHCW zeroState 1 1000 LVLH = zeroState"
  using origin_fixed
    [where el = "\<lparr>eccentricity = 1 / 10, angularMomentum = 2, gravitationalParameter = 3\<rparr>"
       and n = 1 and frame = RIC and ?theta0.0 = 0 and thetaF = 1 and deltaTime = 1000]
    origin_fixed
    [where el = "\<lparr>eccentricity = 1 / 10, angularMomentum = 2, gravitationalParameter = 3\<rparr>"
       and n = 1 and frame = LVLH and ?theta0.0 = 0 and thetaF = 1 and deltaTime = 1000]
  by simp

section \<open>Validation\<close>

lemma traced_simps:
  "thenDo (compute name v) k = (fst (k v), name # snd (k v))"
  "fst (compute name v) = Inr v" "snd (compute name v) = [name]"
  "fst (raise err) = Inl err" "snd (raise err) = []"
  by (simp_all add: thenDo_def compute_def raise_def split: prod.splits)

text \<open>
  C6. The elliptical propagation raises when the eccentricity is below \<open>0\<close> or at least
  \<open>1\<close> and otherwise does not raise; the message is \<open>Eccentricity must be in range
  [0, 1), got\<close> followed by the eccentricity. \<open>deriveAngularMomentum\<close> tests the
  eccentricity first: it raises the eccentricity error when the eccentricity is NaN,
  below \<open>0\<close> or at least \<open>1\<close>; it raises the mean-motion error when the eccentricity is
  in \<open>[0, 1)\<close> and the mean motion is NaN or at most \<open>0\<close>; otherwise it returns a value.
  Each function gives the same outcome when its body is run statement by statement, and
  it raises exactly when no statement has been evaluated: every validation failure comes
  before any computation.
\<close>

theorem validation_raises:
  "(propagateYA st el theta0 thetaF dt f = Inl err \<longleftrightarrow>
      (eccentricity el < 0 \<or> 1 \<le> eccentricity el)
      \<and> err = Error [Lit ''Eccentricity must be in range [0, 1), got '',
                      Num (eccentricity el)])
   \<and> ((\<exists>r. propagateYA st el theta0 thetaF dt f = Inr r) \<longleftrightarrow>
      \<not> (eccentricity el < 0 \<or> 1 \<le> eccentricity el))
   \<and> (deriveAngularMomentum e mm mu = Inl err \<longleftrightarrow>
      (e = NaN \<or> numLt e (Finite 0) \<or> numGe e (Finite 1))
        \<and> err = Error [Lit ''eccentricity must be in [0,1).'']
      \<or> (numGe e (Finite 0) \<and> numLt e (Finite 1))
        \<and> (mm = NaN \<or> numLe mm (Finite 0))
        \<and> err = Error [Lit ''meanMotionRevPerDay must be > 0.''])
   \<and> ((\<exists>h. deriveAngularMomentum e mm mu = Inr h) \<longleftrightarrow>
      (numGe e (Finite 0) \<and> numLt e (Finite 1)) \<and> numGt mm (Finite 0))
   \<and> fst (propagateYATraced st el theta0 thetaF dt f) = propagateYA st el theta0 thetaF dt f
   \<and> (snd (propagateYATraced st el theta0 thetaF dt f) = [] \<longleftrightarrow>
      (\<exists>err'. propagateYA st el theta0 thetaF dt f = Inl err'))
   \<and> fst (deriveAngularMomentumTraced e mm mu) = deriveAngularMomentum e mm mu
   \<and> (snd (deriveAngularMomentumTraced e mm mu) = [] \<longleftrightarrow>
      (\<exists>err'. deriveAngularMomentum e mm mu = Inl err'))"
proof (intro conjI)
  show "propagateYA st el theta0 thetaF dt f = Inl err \<longleftrightarrow>
      (eccentricity el < 0 \<or> 1 \<le> eccentricity el)
      \<and> err = Error [Lit ''Eccentricity must be in range [0, 1), got '',
                      Num (eccentricity el)]"
    by (auto simp add: propagateYA_def Let_def)
  show "(\<exists>r. propagateYA st el theta0 thetaF dt f = Inr r) \<longleftrightarrow>
      \<not> (eccentricity el < 0 \<or> 1 \<le> eccentricity el)"
    by (auto simp add: propagateYA_def Let_def)
  show "deriveAngularMomentum e mm mu = Inl err \<longleftrightarrow>
      (e = NaN \<or> numLt e (Finite 0) \<or> numGe e (Finite 1))
        \<and> err = Error [Lit ''eccentricity must be in [0,1).'']
      \<or> (numGe e (Finite 0) \<and> numLt e (Finite 1))
        \<and> (mm = NaN \<or> numLe mm (Finite 0))
        \<and> err = Error [Lit ''meanMotionRevPerDay must be > 0.'']"
    by (cases e; cases mm)
       (auto simp add: deriveAngularMomentum_def Let_def numGe_def numGt_def numLe_def)
  show "(\<exists>h. deriveAngularMomentum e mm mu = Inr h) \<longleftrightarrow>
      (numGe e (Finite 0) \<and> numLt e (Finite 1)) \<and> numGt mm (Finite 0)"
    by (cases e; cases mm)
       (auto simp add: deriveAngularMomentum_def Let_def numGe_def numGt_def)
  show "fst (propagateYATraced st el theta0 thetaF dt f) = propagateYA st el theta0 thetaF dt f"
    by (simp add: propagateYATraced_def propagateYA_def Let_def traced_simps)
  show "snd (propagateYATraced st el theta0 thetaF dt f) = [] \<longleftrightarrow>
      (\<exists>err'. propagateYA st el theta0 thetaF dt f = Inl err')"
    by (simp add: propagateYATraced_def propagateYA_def Let_def traced_simps)
  show "fst (deriveAngularMomentumTraced e mm mu) = deriveAngularMomentum e mm mu"
    by (cases e; cases mm)
       (simp_all add: deriveAngularMomentumTraced_def deriveAngularMomentum_def Let_def
          traced_simps)
  show "snd (deriveAngularMomentumTraced e mm mu) = [] \<longleftrightarrow>
      (\<exists>err'. deriveAngularMomentum e mm mu = Inl err')"
    by (cases e; cases mm)
       (simp_all add: deriveAngularMomentumTraced_def deriveAngularMomentum_def Let_def
          traced_simps)
qed

text \<open>
  Four inputs at which the program does not do what a reading of the conditions one by
  one says. At eccentricity \<open>1\<close> the message of the elliptical propagation is longer than
  \<open>Eccentricity must be in range [0, 1)\<close>. At eccentricity \<open>1\<close> and mean motion \<open>0\<close> both
  arguments are invalid and the error is the eccentricity error. A NaN eccentricity is
  neither below \<open>0\<close> nor at least \<open>1\<close>, and with a mean motion of \<open>15\<close> it is rejected. A
  NaN mean motion is not at most \<open>0\<close>, and with an eccentricity of \<open>1/2\<close> it is
  rejected.
\<close>

theorem validation_counterexample:
  "propagateYA \<lparr>position = (100, 200, 50), velocity = (1 / 2, - 1 / 5, 1 / 10)\<rparr>
       \<lparr>eccentricity = 1, angularMomentum = 2, gravitationalParameter = 3\<rparr> 0 1 1000 RIC
     = Inl (Error [Lit ''Eccentricity must be in range [0, 1), got '', Num 1])
   \<and> propagateYA \<lparr>position = (100, 200, 50), velocity = (1 / 2, - 1 / 5, 1 / 10)\<rparr>
       \<lparr>eccentricity = 1, angularMomentum = 2, gravitationalParameter = 3\<rparr> 0 1 1000 RIC
     \<noteq> Inl (Error [Lit ''Eccentricity must be in range [0, 1)''])
   \<and> numLe (Finite 0) (Finite 0)
   \<and> deriveAngularMomentum (Finite 1) (Finite 0) 1
     = Inl (Error [Lit ''eccentricity must be in [0,1).''])
   \<and> deriveAngularMomentum (Finite 1) (Finite 0) 1
     \<noteq> Inl (Error [Lit ''meanMotionRevPerDay must be > 0.''])
   \<and> \<not> numLt NaN (Finite 0) \<and> \<not> numGe NaN (Finite 1) \<and> \<not> numLe (Finite 15) (Finite 0)
   \<and> deriveAngularMomentum NaN (Finite 15) 1
     = Inl (Error [Lit ''eccentricity must be in [0,1).''])
   \<and> numGe (Finite (1 / 2)) (Finite 0) \<and> numLt (Finite (1 / 2)) (Finite 1)
   \<and> \<not> numLe NaN (Finite 0)
   \<and> deriveAngularMomentum (Finite (1 / 2)) NaN 1
     = Inl (Error [Lit ''meanMotionRevPerDay must be > 0.''])"
  by (simp add: propagateYA_def deriveAngularMomentum_def numGe_def numLe_def numGt_def)

section \<open>The Kepler solver\<close>

declare keplerLoop.simps [simp del]

lemma keplerLoop_unfold:
  "keplerLoop M e tol i E =
     (if i < 100 then
        (if \<bar>newtonDelta M e E\<bar> < tol then (newtonStep M e E, Suc i)
         else keplerLoop M e tol (Suc i) (newtonStep M e E))
      else (E, i))"
  by (subst keplerLoop.simps) (simp add: Let_def newtonDelta_def newtonStep_def)

lemma keplerLoop_count:
  "i \<le> 100 \<Longrightarrow>
     i \<le> snd (keplerLoop M e tol i E) \<and> snd (keplerLoop M e tol i E) \<le> 100"
proof (induction "100 - i" arbitrary: i E)
  case 0
  then show ?case by (subst (1 2) keplerLoop_unfold) simp
next
  case (Suc k)
  then have lt: "i < 100" and k: "k = 100 - Suc i" and le: "Suc i \<le> 100" by simp_all
  from Suc.hyps(1) [OF k le, of "newtonStep M e E"] lt
  show ?case by (subst (1 2) keplerLoop_unfold) simp
qed

lemma keplerLoop_iterate:
  "i \<le> 100 \<Longrightarrow>
     fst (keplerLoop M e tol i E)
       = (newtonStep M e ^^ (snd (keplerLoop M e tol i E) - i)) E"
proof (induction "100 - i" arbitrary: i E)
  case 0
  then show ?case by (subst (1 2) keplerLoop_unfold) simp
next
  case (Suc k)
  then have lt: "i < 100" and k: "k = 100 - Suc i" and le: "Suc i \<le> 100" by simp_all
  show ?case
  proof (cases "\<bar>newtonDelta M e E\<bar> < tol")
    case True
    with lt show ?thesis by (subst (1 2) keplerLoop_unfold) simp
  next
    case False
    let ?n = "snd (keplerLoop M e tol (Suc i) (newtonStep M e E))"
    have ge: "Suc i \<le> ?n" using keplerLoop_count [OF le] by simp
    then have "?n - i = Suc (?n - Suc i)" by simp
    then have "(newtonStep M e ^^ (?n - i)) E
               = (newtonStep M e ^^ (?n - Suc i)) (newtonStep M e E)"
      by (simp add: funpow_swap1)
    with Suc.hyps(1) [OF k le, of "newtonStep M e E"] lt False
    show ?thesis by (subst (1 2) keplerLoop_unfold) simp
  qed
qed

lemma keplerLoop_fallback:
  "i \<le> 100 \<Longrightarrow>
   (\<forall>k. i + k < 100 \<longrightarrow> \<not> \<bar>newtonDelta M e ((newtonStep M e ^^ k) E)\<bar> < tol) \<Longrightarrow>
   keplerLoop M e tol i E = ((newtonStep M e ^^ (100 - i)) E, 100)"
proof (induction "100 - i" arbitrary: i E)
  case 0
  then show ?case by (subst keplerLoop_unfold) simp
next
  case (Suc k)
  then have lt: "i < 100" and k: "k = 100 - Suc i" and le: "Suc i \<le> 100" by simp_all
  have here: "\<not> \<bar>newtonDelta M e E\<bar> < tol"
    using Suc.prems(2) [rule_format, of 0] lt by simp
  have later: "\<forall>j. Suc i + j < 100 \<longrightarrow>
      \<not> \<bar>newtonDelta M e ((newtonStep M e ^^ j) (newtonStep M e E))\<bar> < tol"
  proof (intro allI impI)
    fix j assume "Suc i + j < 100"
    then have "i + Suc j < 100" by simp
    from Suc.prems(2) [rule_format, OF this]
    show "\<not> \<bar>newtonDelta M e ((newtonStep M e ^^ j) (newtonStep M e E))\<bar> < tol"
      by (simp add: funpow_swap1)
  qed
  have "100 - i = Suc (100 - Suc i)" using lt by simp
  then have "(newtonStep M e ^^ (100 - i)) E
             = (newtonStep M e ^^ (100 - Suc i)) (newtonStep M e E)"
    by (simp add: funpow_swap1)
  with Suc.hyps(1) [OF k le later] lt here
  show ?case by (subst keplerLoop_unfold) simp
qed

lemma newton_denominator_pos:
  fixes e E :: real
  assumes "0 \<le> e" "e < 1"
  shows "0 < 1 - e * cos E"
proof -
  have "cos E \<le> 1" by simp
  then have "e * cos E \<le> e * 1" using assms(1) by (rule mult_left_mono)
  then show ?thesis using assms(2) by simp
qed

lemma funpow_fixed: "f a = a \<Longrightarrow> (f ^^ n) a = a"
  by (induction n) simp_all

text \<open>
  C7. For every eccentricity in \<open>[0, 1)\<close>, mean anomaly and tolerance, the Newton loop
  started at \<open>E = M\<close> runs its body at most 100 times and leaves with the last computed
  iterate; when no update is below the tolerance in any of the 100 rounds it leaves with
  the 100th iterate; the derivative it divides by is positive; and the function returns
  the true anomaly of the iterate the loop left with. No case of the function is an
  error.
\<close>

theorem trueAnomalyFromMean_total:
  assumes "0 \<le> e" "e < 1"
  shows "snd (keplerLoop M e tol 0 M) \<le> 100
    \<and> fst (keplerLoop M e tol 0 M) = (newtonStep M e ^^ snd (keplerLoop M e tol 0 M)) M
    \<and> ((\<forall>k<100. \<not> \<bar>newtonDelta M e ((newtonStep M e ^^ k) M)\<bar> < tol) \<longrightarrow>
         keplerLoop M e tol 0 M = ((newtonStep M e ^^ 100) M, 100))
    \<and> (\<forall>E. 0 < 1 - e * cos E)
    \<and> trueAnomalyFromMean M e tol
        = 2 * arctan (sqrt ((1 + e) / (1 - e))
            * tan ((newtonStep M e ^^ snd (keplerLoop M e tol 0 M)) M / 2))"
proof (intro conjI impI allI)
  show "snd (keplerLoop M e tol 0 M) \<le> 100"
    using keplerLoop_count [of 0 M e tol M] by simp
  show it: "fst (keplerLoop M e tol 0 M) = (newtonStep M e ^^ snd (keplerLoop M e tol 0 M)) M"
    using keplerLoop_iterate [of 0 M e tol M] by simp
  show "keplerLoop M e tol 0 M = ((newtonStep M e ^^ 100) M, 100)"
    if "\<forall>k<100. \<not> \<bar>newtonDelta M e ((newtonStep M e ^^ k) M)\<bar> < tol"
    using keplerLoop_fallback [where i = 0 and E = M and M = M and e = e and tol = tol] that
    by simp
  show "0 < 1 - e * cos E" for E
    by (rule newton_denominator_pos [OF assms])
  show "trueAnomalyFromMean M e tol
        = 2 * arctan (sqrt ((1 + e) / (1 - e))
            * tan ((newtonStep M e ^^ snd (keplerLoop M e tol 0 M)) M / 2))"
    by (simp add: trueAnomalyFromMean_def it)
qed

theorem trueAnomalyFromMean_total_witness:
  "(0::real) \<le> 0 \<and> (0::real) < 1
   \<and> keplerLoop 1 0 0 0 1 = (1, 100)
   \<and> snd (keplerLoop 1 0 0 0 1) \<le> 100
   \<and> trueAnomalyFromMean 1 0 0 = 2 * arctan (tan (1 / 2))"
proof -
  have fp: "newtonStep 1 0 1 = 1" by (simp add: newtonStep_def newtonDelta_def)
  have pw: "(newtonStep 1 0 ^^ n) 1 = 1" for n
    using fp by (rule funpow_fixed)
  have never: "\<forall>k<100. \<not> \<bar>newtonDelta 1 0 ((newtonStep 1 0 ^^ k) 1)\<bar> < 0" by simp
  from trueAnomalyFromMean_total [of 0 1 0] never
  show ?thesis by (simp add: pw)
qed



text \<open>
  At periapsis the start value \<open>E = 0\<close> solves Kepler's equation, every Newton update is
  zero, and the returned true anomaly is \<open>0\<close>. At apoapsis, \<open>M = pi\<close>, the conversion
  evaluates \<open>tan\<close> at \<open>pi / 2\<close>, where the tangent of a real number has a pole: what the
  program returns there is decided by the rounding of doubles and is outside this model.
\<close>

lemma trueAnomalyFromMean_periapsis: "trueAnomalyFromMean 0 e tol = 0"
proof -
  have fp: "newtonStep 0 e 0 = 0" by (simp add: newtonStep_def newtonDelta_def)
  have "fst (keplerLoop 0 e tol 0 0) = 0"
    using keplerLoop_iterate [of 0 0 e tol 0] by (simp add: funpow_fixed [of "newtonStep 0 e" 0, OF fp])
  then show ?thesis by (simp add: trueAnomalyFromMean_def)
qed

end
